theory Spec2Isabelle
  imports Main
begin

section \<open>The quota store of the Discord bot\<close>

text \<open>
  The program keeps one global dictionary \<^verbatim>\<open>user_request_data\<close>, loaded from and dumped to
  the JSON file \<^verbatim>\<open>user_requests.json\<close>. A key is a user id (a string), a value is a JSON
  object with the fields \<^verbatim>\<open>count\<close>, \<^verbatim>\<open>image_count\<close>, \<^verbatim>\<open>last_reset\<close> and
  \<^verbatim>\<open>last_image_reset\<close>. A record read from the file may lack any of them, so a record is
  a partial map from field names to JSON values.

  A time is a naive \<^verbatim>\<open>datetime\<close>, counted here in microseconds (the resolution of
  \<^verbatim>\<open>datetime\<close> and \<^verbatim>\<open>timedelta\<close>) since \<^verbatim>\<open>datetime.min\<close>, the first instant of
  the year 1; the last time there is, \<^verbatim>\<open>datetime.max\<close>, is the last microsecond of the
  year 9999. \<open>JIso t\<close> is the JSON string that
  \<^verbatim>\<open>isoformat()\<close> prints for the time \<open>t\<close>, which \<^verbatim>\<open>fromisoformat\<close> reads back as
  \<open>t\<close>; \<open>JStr\<close> is any JSON string that \<^verbatim>\<open>fromisoformat\<close> rejects; \<open>JInt n\<close> is a JSON
  integer. The values of the top-level object are taken to be JSON objects.
\<close>

datatype jval = JInt int | JIso int | JStr

datatype py_error = KeyError | TypeError | ValueError | OverflowError

type_synonym user_record = "string \<rightharpoonup> jval"

type_synonym store = "string \<rightharpoonup> user_record"

text \<open>The file is absent, unreadable as JSON, or holds a mapping.\<close>

datatype file_state = Absent | Corrupt | Content store

text \<open>
  What the program does to the outside, in the order it does it: a dump of the whole
  mapping to the file, a message sent to the channel, a line printed to the log, a call of
  \<^verbatim>\<open>client.chat.completions.create\<close> (its text and, for an attachment, the image URL) and
  a call of \<^verbatim>\<open>client.images.generate\<close> (its prompt). The arguments that are the same in
  every call (model, size, token limit) are left out, and a printed line is kept as its
  fixed beginning, without the text of the exception.
\<close>

datatype event =
    Saved store
  | Sent string
  | Printed string
  | ChatCall string "string option"
  | ImageCall string

record world =
  user_request_data :: store
  request_count_file :: file_state
  trace :: "event list"

definition REQUEST_LIMIT :: int where
  "REQUEST_LIMIT = 24"

definition IMAGE_REQUEST_LIMIT :: int where
  "IMAGE_REQUEST_LIMIT = 12"

definition RESET_HOURS :: int where
  "RESET_HOURS = 24"

text \<open>
  \<^verbatim>\<open>datetime.max\<close>, 9999-12-31T23:59:59.999999: 3652059 days less one microsecond after
  \<^verbatim>\<open>datetime.min\<close>.
\<close>

definition DATETIME_MAX :: int where
  "DATETIME_MAX = 3652059 * 86400 * 1000000 - 1"

text \<open>\<^verbatim>\<open>timedelta(hours=h)\<close>, in microseconds.\<close>

definition timedelta_hours :: "int \<Rightarrow> int" where
  "timedelta_hours h = h * 3600 * 1000000"

text \<open>\<^verbatim>\<open>d[k]\<close> raises \<^verbatim>\<open>KeyError\<close> on a missing key.\<close>

definition getitem :: "('k \<rightharpoonup> 'v) \<Rightarrow> 'k \<Rightarrow> py_error + 'v" where
  "getitem d k = (case d k of None \<Rightarrow> Inl KeyError | Some v \<Rightarrow> Inr v)"

text \<open>
  \<^verbatim>\<open>datetime.fromisoformat\<close>: a \<^verbatim>\<open>TypeError\<close> on a value that is no string, a
  \<^verbatim>\<open>ValueError\<close> on a string that is no ISO time.
\<close>

definition fromisoformat :: "jval \<Rightarrow> py_error + int" where
  "fromisoformat v =
     (case v of JIso t \<Rightarrow> Inr t | JStr \<Rightarrow> Inl ValueError | JInt n \<Rightarrow> Inl TypeError)"

subsection \<open>Start of the process (lines 28 to 34)\<close>

definition load_user_request_data :: "file_state \<Rightarrow> py_error + world" where
  "load_user_request_data f =
     (case f of
        Content m \<Rightarrow>
          Inr \<lparr>user_request_data = m, request_count_file = Content m, trace = []\<rparr>
      | Corrupt \<Rightarrow> Inl ValueError
      | Absent \<Rightarrow>
          Inr \<lparr>user_request_data = Map.empty, request_count_file = Content Map.empty,
               trace = [Saved Map.empty]\<rparr>)"

subsection \<open>\<^verbatim>\<open>save_user_request_data\<close>\<close>

definition save_user_request_data :: "world \<Rightarrow> world" where
  "save_user_request_data w =
     w\<lparr>request_count_file := Content (user_request_data w),
       trace := trace w @ [Saved (user_request_data w)]\<rparr>"

subsection \<open>\<^verbatim>\<open>check_and_reset_user_count\<close>\<close>

text \<open>The record of a user seen for the first time (lines 46 to 51).\<close>

definition new_record :: "int \<Rightarrow> user_record" where
  "new_record now =
     [''count'' \<mapsto> JInt 0, ''image_count'' \<mapsto> JInt 0,
      ''last_reset'' \<mapsto> JIso now, ''last_image_reset'' \<mapsto> JIso now]"

text \<open>The three fields given a default when a loaded record lacks them (lines 55 to 60).\<close>

definition ensure_keys :: "int \<Rightarrow> user_record \<Rightarrow> user_record" where
  "ensure_keys now r =
     (let r1 = (if r ''last_reset'' = None then r(''last_reset'' \<mapsto> JIso now) else r);
          r2 = (if r1 ''image_count'' = None then r1(''image_count'' \<mapsto> JInt 0) else r1)
      in if r2 ''last_image_reset'' = None then r2(''last_image_reset'' \<mapsto> JIso now) else r2)"

text \<open>The two window checks (lines 64 to 71), on the times read at lines 62 and 63.\<close>

definition reset_counts :: "int \<Rightarrow> int \<Rightarrow> int \<Rightarrow> user_record \<Rightarrow> user_record" where
  "reset_counts now last_reset last_image_reset r =
     (let r1 = (if now - last_reset > timedelta_hours RESET_HOURS
                then r(''count'' \<mapsto> JInt 0, ''last_reset'' \<mapsto> JIso now) else r)
      in if now - last_image_reset > timedelta_hours RESET_HOURS
         then r1(''image_count'' \<mapsto> JInt 0, ''last_image_reset'' \<mapsto> JIso now) else r1)"

text \<open>
  The function reads the clock once (\<open>now\<close>). A raise leaves the dictionary as it was
  mutated so far, without a dump: the result \<open>Inl (e, w)\<close> is the exception and the world at
  the raise.
\<close>

definition set_user :: "string \<Rightarrow> user_record \<Rightarrow> world \<Rightarrow> world" where
  "set_user user_id r w = w\<lparr>user_request_data := (user_request_data w)(user_id \<mapsto> r)\<rparr>"

definition check_and_reset_user_count ::
    "int \<Rightarrow> string \<Rightarrow> world \<Rightarrow> (py_error \<times> world) + world" where
  "check_and_reset_user_count now user_id w =
     (case user_request_data w user_id of
        None \<Rightarrow> Inr (save_user_request_data (set_user user_id (new_record now) w))
      | Some r \<Rightarrow>
          (let r3 = ensure_keys now r; w3 = set_user user_id r3 w in
           case getitem r3 ''last_reset'' of
             Inl e \<Rightarrow> Inl (e, w3)
           | Inr v \<Rightarrow>
           (case fromisoformat v of
             Inl e \<Rightarrow> Inl (e, w3)
           | Inr last_reset \<Rightarrow>
           (case getitem r3 ''last_image_reset'' of
             Inl e \<Rightarrow> Inl (e, w3)
           | Inr v' \<Rightarrow>
           (case fromisoformat v' of
             Inl e \<Rightarrow> Inl (e, w3)
           | Inr last_image_reset \<Rightarrow>
               Inr (save_user_request_data
                      (set_user user_id (reset_counts now last_reset last_image_reset r3) w)))))))"

subsection \<open>\<^verbatim>\<open>time_until_reset\<close>\<close>

text \<open>
  \<^verbatim>\<open>str(n)\<close> for the integers the program prints. A string is a list of characters with
  code points below 256.
\<close>

fun str_nat :: "nat \<Rightarrow> string" where
  "str_nat n =
     (if n < 10 then [''0123456789'' ! n]
      else str_nat (n div 10) @ [''0123456789'' ! (n mod 10)])"

declare str_nat.simps [simp del]

definition str_int :: "int \<Rightarrow> string" where
  "str_int i = (if i < 0 then ''-'' @ str_nat (nat (- i)) else str_nat (nat i))"

text \<open>
  \<^verbatim>\<open>timedelta.seconds\<close>: a \<^verbatim>\<open>timedelta\<close> is kept as days, seconds (0 to 86399) and
  microseconds (0 to 999999), the days alone carrying the sign; the attribute is the middle
  part.
\<close>

definition timedelta_seconds :: "int \<Rightarrow> int" where
  "timedelta_seconds td = (td mod (86400 * 1000000)) div 1000000"

text \<open>
  The clock is read once, at line 79 (\<open>now\<close>). The sum of line 78 raises
  \<^verbatim>\<open>OverflowError\<close> when it would lie after \<^verbatim>\<open>datetime.max\<close>; the differences of two
  times (here and in \<^verbatim>\<open>check_and_reset_user_count\<close>) are within the range of
  \<^verbatim>\<open>timedelta\<close>.
\<close>

definition time_until_reset :: "store \<Rightarrow> string \<Rightarrow> string \<Rightarrow> int \<Rightarrow> py_error + string" where
  "time_until_reset d user_id reset_type now =
     (case getitem d user_id of
        Inl e \<Rightarrow> Inl e
      | Inr r \<Rightarrow>
     (case getitem r reset_type of
        Inl e \<Rightarrow> Inl e
      | Inr v \<Rightarrow>
     (case fromisoformat v of
        Inl e \<Rightarrow> Inl e
      | Inr last_reset \<Rightarrow>
          if last_reset + timedelta_hours RESET_HOURS > DATETIME_MAX then Inl OverflowError
          else
          (let reset_time = last_reset + timedelta_hours RESET_HOURS;
               time_remaining = reset_time - now;
               hours = timedelta_seconds time_remaining div 3600;
               remainder = timedelta_seconds time_remaining mod 3600;
               minutes = remainder div 60
           in Inr (str_int hours @ ''h'' @ str_int minutes @ ''m'')))))"

subsection \<open>Strings\<close>

definition startswith :: "string \<Rightarrow> string \<Rightarrow> bool" where
  "startswith s p = (take (length p) s = p)"

text \<open>The characters below 256 for which \<^verbatim>\<open>str.isspace\<close> holds.\<close>

definition isspace :: "char \<Rightarrow> bool" where
  "isspace c = (c \<in> set [CHR 0x09, CHR 0x0A, CHR 0x0B, CHR 0x0C, CHR 0x0D,
                          CHR 0x1C, CHR 0x1D, CHR 0x1E, CHR 0x1F, CHR 0x20, CHR 0x85, CHR 0xA0])"

definition strip :: "string \<Rightarrow> string" where
  "strip s = rev (dropWhile isspace (rev (dropWhile isspace s)))"

subsection \<open>The external services\<close>

text \<open>
  The class of an exception raised inside a \<^verbatim>\<open>try\<close> block, as far as the handlers tell
  classes apart: one of the four classes imported from the \<^verbatim>\<open>openai\<close> package (the most
  specific one), or any other \<^verbatim>\<open>Exception\<close>. In that package (the version that exports
  \<^verbatim>\<open>OpenAI\<close>) \<^verbatim>\<open>APIConnectionError\<close> derives from \<^verbatim>\<open>APIError\<close>, and
  \<^verbatim>\<open>RateLimitError\<close> and \<^verbatim>\<open>AuthenticationError\<close> derive from \<^verbatim>\<open>APIStatusError\<close>,
  which derives from \<^verbatim>\<open>APIError\<close>. An \<^verbatim>\<open>except C\<close> clause takes an exception whose class
  is \<open>C\<close> or derives from it, and the first clause that does so runs.
\<close>

datatype exc_class = APIError | APIConnectionError | RateLimitError | AuthenticationError
  | Exception

fun issubclass :: "exc_class \<Rightarrow> exc_class \<Rightarrow> bool" where
  "issubclass c Exception = True"
| "issubclass c APIError = (c \<noteq> Exception)"
| "issubclass c d = (c = d)"

record message =
  author_is_client_user :: bool
  author_id :: string
  content :: string
  attachments :: "string list"

text \<open>
  What the handler of one message gets from outside: the clock as
  \<^verbatim>\<open>check_and_reset_user_count\<close> reads it and as \<^verbatim>\<open>time_until_reset\<close> reads it later, the
  outcome of the \<open>k\<close>-th chat completion call (an exception, or the text
  \<^verbatim>\<open>response.choices[0].message.content\<close>) and the outcome of the image call (an exception,
  or the URL \<^verbatim>\<open>response.data[0].url\<close>). Sending to the channel and writing the file are
  taken to succeed.
\<close>

record env =
  clock_check :: int
  clock_reply :: int
  chat_api :: "nat \<Rightarrow> exc_class + string"
  image_api :: "exc_class + string"

definition send :: "string \<Rightarrow> world \<Rightarrow> world" where
  "send txt w = w\<lparr>trace := trace w @ [Sent txt]\<rparr>"

definition print :: "string \<Rightarrow> world \<Rightarrow> world" where
  "print txt w = w\<lparr>trace := trace w @ [Printed txt]\<rparr>"

definition call :: "event \<Rightarrow> world \<Rightarrow> world" where
  "call ev w = w\<lparr>trace := trace w @ [ev]\<rparr>"

subsection \<open>\<^verbatim>\<open>on_message\<close>: the text request (lines 99 to 160)\<close>

text \<open>The \<^verbatim>\<open>except\<close> clauses of lines 142 to 160, in their order.\<close>

definition except_ask :: "exc_class \<Rightarrow> world \<Rightarrow> world" where
  "except_ask e w =
     (if issubclass e APIError then
        send ''Sorry, there was an issue with the AI service. Please try again later.''
          (print ''OpenAI API returned an API Error: '' w)
      else if issubclass e APIConnectionError then
        send ''Sorry, I couldn't connect to the AI service. Please check your connection and try again.''
          (print ''Failed to connect to OpenAI API: '' w)
      else if issubclass e RateLimitError then
        send ''Sorry, I'm receiving too many requests at once. Please try again in a moment.''
          (print ''OpenAI API request exceeded rate limit: '' w)
      else if issubclass e AuthenticationError then
        send ''Sorry, it looks like I've run out of credits. Please check back later or contact support.''
          (print ''OpenAI API authentication error: '' w)
      else
        send ''Sorry, something went wrong.'' (print ''An unexpected error occurred: '' w))"

text \<open>
  The loop over the attachments (lines 112 to 127): one call per attachment, the \<open>k\<close>-th
  call of the message answered by \<open>chat k\<close>; an exception leaves the loop. The result is the
  world and the exception raised, if any.
\<close>

fun chat_attachments ::
    "string \<Rightarrow> (nat \<Rightarrow> exc_class + string) \<Rightarrow> nat \<Rightarrow> string list \<Rightarrow> world
      \<Rightarrow> world \<times> exc_class option" where
  "chat_attachments txt chat k [] w = (w, None)"
| "chat_attachments txt chat k (image_url # rest) w =
     (let w1 = call (ChatCall (if txt = [] then ''What's in this image?'' else txt)
                       (Some image_url)) w
      in case chat k of
           Inl e \<Rightarrow> (w1, Some e)
         | Inr response \<Rightarrow> chat_attachments txt chat (Suc k) rest (send (strip response) w1))"

text \<open>The plain request (lines 130 to 140).\<close>

definition chat_plain ::
    "string \<Rightarrow> (nat \<Rightarrow> exc_class + string) \<Rightarrow> world \<Rightarrow> world \<times> exc_class option" where
  "chat_plain txt chat w =
     (let w1 = call (ChatCall txt None) w
      in case chat 0 of
           Inl e \<Rightarrow> (w1, Some e)
         | Inr response \<Rightarrow> (send (strip response) w1, None))"

text \<open>
  The \<^verbatim>\<open>try\<close> statement (lines 105 to 160), entered with the user's record \<open>r\<close> and its
  count \<open>c\<close>.
\<close>

definition ask_try :: "message \<Rightarrow> env \<Rightarrow> user_record \<Rightarrow> int \<Rightarrow> world \<Rightarrow> world" where
  "ask_try msg en r c w =
     (let w1 = save_user_request_data
                 (set_user (author_id msg) (r(''count'' \<mapsto> JInt (c + 1))) w);
          res = (if attachments msg \<noteq> []
                 then chat_attachments (content msg) (chat_api en) 0 (attachments msg) w1
                 else chat_plain (content msg) (chat_api en) w1)
      in case snd res of None \<Rightarrow> fst res | Some e \<Rightarrow> except_ask e (fst res))"

definition ask_limit_message :: "string \<Rightarrow> string" where
  "ask_limit_message wait_time =
     ''Sorry, you've reached the maximum number of requests allowed for today. Please wait ''
     @ wait_time @ '' before trying again.''"

text \<open>
  Lines 100 to 160. The comparison \<^verbatim>\<open>count >= REQUEST_LIMIT\<close> of a string against an
  integer raises \<^verbatim>\<open>TypeError\<close>, outside the \<^verbatim>\<open>try\<close> statement.
\<close>

definition ask_branch :: "message \<Rightarrow> env \<Rightarrow> world \<Rightarrow> (py_error \<times> world) + world" where
  "ask_branch msg en w =
     (case getitem (user_request_data w) (author_id msg) of
        Inl e \<Rightarrow> Inl (e, w)
      | Inr r \<Rightarrow>
     (case getitem r ''count'' of
        Inl e \<Rightarrow> Inl (e, w)
      | Inr (JIso t) \<Rightarrow> Inl (TypeError, w)
      | Inr JStr \<Rightarrow> Inl (TypeError, w)
      | Inr (JInt c) \<Rightarrow>
          if c \<ge> REQUEST_LIMIT then
            (case time_until_reset (user_request_data w) (author_id msg) ''last_reset''
                    (clock_reply en) of
               Inl e \<Rightarrow> Inl (e, w)
             | Inr wait_time \<Rightarrow> Inr (send (ask_limit_message wait_time) w))
          else Inr (ask_try msg en r c w)))"

subsection \<open>\<^verbatim>\<open>on_message\<close>: the image request (lines 163 to 203)\<close>

definition except_make :: "exc_class \<Rightarrow> world \<Rightarrow> world" where
  "except_make e w =
     (if issubclass e APIError then
        send ''Sorry, there was an issue with the image generation service. Please try again later.''
          (print ''OpenAI API returned an API Error: '' w)
      else if issubclass e APIConnectionError then
        send ''Sorry, I couldn't connect to the image generation service. Please check your connection and try again.''
          (print ''Failed to connect to OpenAI API: '' w)
      else if issubclass e RateLimitError then
        send ''Sorry, I'm receiving too many image requests at once. Please try again in a moment.''
          (print ''OpenAI API request exceeded rate limit: '' w)
      else if issubclass e AuthenticationError then
        send ''Sorry, it looks like I've run out of credits. Please check back later or contact support.''
          (print ''OpenAI API authentication error: '' w)
      else
        send ''Sorry, something went wrong.'' (print ''An unexpected error occurred: '' w))"

text \<open>Line 174: \<^verbatim>\<open>message.content[len("!make "):].strip()\<close>.\<close>

definition make_prompt :: "string \<Rightarrow> string" where
  "make_prompt txt = strip (drop (length ''!make '') txt)"

definition make_try :: "message \<Rightarrow> env \<Rightarrow> user_record \<Rightarrow> int \<Rightarrow> world \<Rightarrow> world" where
  "make_try msg en r c w =
     (let w1 = save_user_request_data
                 (set_user (author_id msg) (r(''image_count'' \<mapsto> JInt (c + 1))) w);
          w2 = call (ImageCall (make_prompt (content msg))) w1
      in case image_api en of
           Inl e \<Rightarrow> except_make e w2
         | Inr image_url \<Rightarrow> send (''Here is your generated image: '' @ image_url) w2)"

definition make_limit_message :: "string \<Rightarrow> string" where
  "make_limit_message wait_time =
     ''Sorry, you've reached the maximum number of image requests allowed for today. Please wait ''
     @ wait_time @ '' before trying again.''"

definition make_branch :: "message \<Rightarrow> env \<Rightarrow> world \<Rightarrow> (py_error \<times> world) + world" where
  "make_branch msg en w =
     (case getitem (user_request_data w) (author_id msg) of
        Inl e \<Rightarrow> Inl (e, w)
      | Inr r \<Rightarrow>
     (case getitem r ''image_count'' of
        Inl e \<Rightarrow> Inl (e, w)
      | Inr (JIso t) \<Rightarrow> Inl (TypeError, w)
      | Inr JStr \<Rightarrow> Inl (TypeError, w)
      | Inr (JInt c) \<Rightarrow>
          if c \<ge> IMAGE_REQUEST_LIMIT then
            (case time_until_reset (user_request_data w) (author_id msg) ''last_image_reset''
                    (clock_reply en) of
               Inl e \<Rightarrow> Inl (e, w)
             | Inr wait_time \<Rightarrow> Inr (send (make_limit_message wait_time) w))
          else Inr (make_try msg en r c w)))"

subsection \<open>\<^verbatim>\<open>on_message\<close>\<close>

definition on_message :: "message \<Rightarrow> env \<Rightarrow> world \<Rightarrow> (py_error \<times> world) + world" where
  "on_message msg en w =
     (if author_is_client_user msg then Inr w
      else
        (case check_and_reset_user_count (clock_check en) (author_id msg) w of
           Inl ew \<Rightarrow> Inl ew
         | Inr w1 \<Rightarrow>
             if startswith (content msg) ''!ask'' then ask_branch msg en w1
             else if startswith (content msg) ''!make'' then make_branch msg en w1
             else Inr w1))"

text \<open>
  The messages of a run, handled one after the other, each with its own clock readings and
  service outcomes. An exception that leaves \<^verbatim>\<open>on_message\<close> ends that message only: the
  next one finds the dictionary as the raise left it. The handler is a coroutine that gives
  up control only where it sends to the channel, and it touches the dictionary and the file
  only before its first send (the calls of the services block); so what two handlers do to
  the dictionary is never interleaved, and the run is taken message by message.
\<close>

fun on_messages :: "(message \<times> env) list \<Rightarrow> world \<Rightarrow> world" where
  "on_messages [] w = w"
| "on_messages ((msg, en) # rest) w =
     (case on_message msg en w of
        Inl (e, w') \<Rightarrow> on_messages rest w'
      | Inr w' \<Rightarrow> on_messages rest w')"

subsection \<open>Reading a result\<close>

text \<open>The world a call leaves behind, the exception that left it, and one field of one user.\<close>

definition world_after :: "(py_error \<times> world) + world \<Rightarrow> world" where
  "world_after res = (case res of Inl (e, w) \<Rightarrow> w | Inr w \<Rightarrow> w)"

definition raised :: "(py_error \<times> world) + world \<Rightarrow> py_error option" where
  "raised res = (case res of Inl (e, w) \<Rightarrow> Some e | Inr w \<Rightarrow> None)"

definition field_of :: "world \<Rightarrow> string \<Rightarrow> string \<Rightarrow> jval option" where
  "field_of w user_id k = (case user_request_data w user_id of None \<Rightarrow> None | Some r \<Rightarrow> r k)"

subsection \<open>Concrete inputs\<close>

text \<open>
  A record with all four fields, as the program writes it; the world right after a start
  that found the mapping \<open>m\<close> in the file; a message without attachments from a user; clock
  readings and one outcome for every service call.
\<close>

definition full_record :: "int \<Rightarrow> int \<Rightarrow> int \<Rightarrow> int \<Rightarrow> user_record" where
  "full_record c ic lr lir =
     [''count'' \<mapsto> JInt c, ''image_count'' \<mapsto> JInt ic,
      ''last_reset'' \<mapsto> JIso lr, ''last_image_reset'' \<mapsto> JIso lir]"

definition loaded :: "store \<Rightarrow> world" where
  "loaded m = \<lparr>user_request_data = m, request_count_file = Content m, trace = []\<rparr>"

definition text_message :: "string \<Rightarrow> string \<Rightarrow> message" where
  "text_message user_id txt =
     \<lparr>author_is_client_user = False, author_id = user_id, content = txt, attachments = []\<rparr>"

definition services :: "int \<Rightarrow> int \<Rightarrow> exc_class + string \<Rightarrow> env" where
  "services t t' outcome =
     \<lparr>clock_check = t, clock_reply = t', chat_api = (\<lambda>k. outcome), image_api = outcome\<rparr>"



text \<open>
  A request was admitted when its handling called the chat completion service: what the
  handler did, after the trace it found, holds a call. The admitted text requests of a
  user in a run are counted along the run.
\<close>

definition is_chat_call :: "event \<Rightarrow> bool" where
  "is_chat_call ev = (case ev of ChatCall q u \<Rightarrow> True | _ \<Rightarrow> False)"



text \<open>The messages sent to the channel, in order.\<close>

definition replies :: "world \<Rightarrow> string list" where
  "replies w = concat (map (\<lambda>ev. case ev of Sent txt \<Rightarrow> [txt] | _ \<Rightarrow> []) (trace w))"

section \<open>Facts about the operations\<close>

subsection \<open>\<^verbatim>\<open>check_and_reset_user_count\<close>\<close>

lemma check_new:
  assumes "user_request_data w user_id = None"
  shows "check_and_reset_user_count now user_id w =
     Inr (w\<lparr>user_request_data := (user_request_data w)(user_id \<mapsto> new_record now),
            request_count_file := Content ((user_request_data w)(user_id \<mapsto> new_record now)),
            trace := trace w @ [Saved ((user_request_data w)(user_id \<mapsto> new_record now))]\<rparr>)"
  using assms by (simp add: check_and_reset_user_count_def save_user_request_data_def set_user_def)

lemma ensure_keys_fields:
  "ensure_keys now r ''last_reset'' = (case r ''last_reset'' of None \<Rightarrow> Some (JIso now) | Some v \<Rightarrow> Some v)"
  "ensure_keys now r ''image_count'' = (case r ''image_count'' of None \<Rightarrow> Some (JInt 0) | Some v \<Rightarrow> Some v)"
  "ensure_keys now r ''last_image_reset'' = (case r ''last_image_reset'' of None \<Rightarrow> Some (JIso now) | Some v \<Rightarrow> Some v)"
  "ensure_keys now r ''count'' = r ''count''"
  by (auto simp: ensure_keys_def Let_def split: option.splits)

lemma ensure_keys_id:
  assumes "r ''last_reset'' = Some a" "r ''image_count'' = Some b" "r ''last_image_reset'' = Some c"
  shows "ensure_keys now r = r"
  using assms by (simp add: ensure_keys_def Let_def)

lemma check_present:
  assumes "user_request_data w user_id = Some r"
    and "r ''last_reset'' = Some (JIso lr)" and "r ''last_image_reset'' = Some (JIso lir)"
  shows "check_and_reset_user_count now user_id w =
     Inr (w\<lparr>user_request_data := (user_request_data w)(user_id \<mapsto> reset_counts now lr lir (ensure_keys now r)),
            request_count_file := Content ((user_request_data w)(user_id \<mapsto> reset_counts now lr lir (ensure_keys now r))),
            trace := trace w @ [Saved ((user_request_data w)(user_id \<mapsto> reset_counts now lr lir (ensure_keys now r)))]\<rparr>)"
  using assms
  by (simp add: check_and_reset_user_count_def save_user_request_data_def set_user_def Let_def
      getitem_def fromisoformat_def ensure_keys_fields)

lemma check_dom:
  "dom (user_request_data w) \<subseteq> dom (user_request_data (world_after (check_and_reset_user_count now user_id w)))"
  by (auto simp: check_and_reset_user_count_def save_user_request_data_def set_user_def Let_def world_after_def
      split: option.splits sum.splits)

lemma check_saved:
  "check_and_reset_user_count now user_id w = Inr w' \<Longrightarrow>
     request_count_file w' = Content (user_request_data w') \<and> trace w' = trace w @ [Saved (user_request_data w')]"
  by (auto simp: check_and_reset_user_count_def save_user_request_data_def set_user_def Let_def
      split: option.splits sum.splits)


lemma reset_counts_text_keep:
  assumes "\<not> now - lr > 86400000000"
  shows "reset_counts now lr lir r ''count'' = r ''count''"
    and "reset_counts now lr lir r ''last_reset'' = r ''last_reset''"
  using assms by (simp_all add: reset_counts_def Let_def timedelta_hours_def RESET_HOURS_def)

lemma reset_counts_image_keep:
  assumes "\<not> now - lir > 86400000000"
  shows "reset_counts now lr lir r ''image_count'' = r ''image_count''"
    and "reset_counts now lr lir r ''last_image_reset'' = r ''last_image_reset''"
  using assms by (simp_all add: reset_counts_def Let_def timedelta_hours_def RESET_HOURS_def)

lemma reset_counts_text_reset:
  assumes "now - lr > 86400000000"
  shows "reset_counts now lr lir r ''count'' = Some (JInt 0)"
    and "reset_counts now lr lir r ''last_reset'' = Some (JIso now)"
  using assms by (simp_all add: reset_counts_def Let_def timedelta_hours_def RESET_HOURS_def)

lemma reset_counts_image_reset:
  assumes "now - lir > 86400000000"
  shows "reset_counts now lr lir r ''image_count'' = Some (JInt 0)"
    and "reset_counts now lr lir r ''last_image_reset'' = Some (JIso now)"
  using assms by (simp_all add: reset_counts_def Let_def timedelta_hours_def RESET_HOURS_def)


lemma reset_counts_last_reset_iso:
  assumes "r ''last_reset'' = Some (JIso lr)"
  shows "\<exists>t. reset_counts now lr lir r ''last_reset'' = Some (JIso t)"
  using assms by (simp add: reset_counts_def Let_def)

lemma except_ask_store [simp]:
  "user_request_data (except_ask e w) = user_request_data w"
  "request_count_file (except_ask e w) = request_count_file w"
  by (simp_all add: except_ask_def send_def print_def)


lemma except_make_store [simp]:
  "user_request_data (except_make e w) = user_request_data w"
  "request_count_file (except_make e w) = request_count_file w"
  by (simp_all add: except_make_def send_def print_def)

lemma except_make_trace:
  "\<exists>p s. trace (except_make e w) = trace w @ [Printed p, Sent s]"
  by (cases e) (simp_all add: except_make_def send_def print_def)

lemma chat_attachments_keeps:
  "user_request_data (fst (chat_attachments txt chat k urls w)) = user_request_data w \<and>
   request_count_file (fst (chat_attachments txt chat k urls w)) = request_count_file w"
proof (induction urls arbitrary: k w)
  case Nil
  show ?case by simp
next
  case (Cons url urls)
  let ?w1 = "call (ChatCall (if txt = [] then ''What's in this image?'' else txt) (Some url)) w"
  show ?case
  proof (cases "chat k")
    case (Inl e)
    then show ?thesis by (simp add: call_def)
  next
    case (Inr response)
    with Cons.IH [of "Suc k" "send (strip response) ?w1"] show ?thesis
      by (simp add: call_def send_def)
  qed
qed

lemma chat_attachments_store [simp]:
  "user_request_data (fst (chat_attachments txt chat k urls w)) = user_request_data w"
  "request_count_file (fst (chat_attachments txt chat k urls w)) = request_count_file w"
  using chat_attachments_keeps by blast+


lemma chat_plain_store [simp]:
  "user_request_data (fst (chat_plain txt chat w)) = user_request_data w"
  "request_count_file (fst (chat_plain txt chat w)) = request_count_file w"
  by (simp_all add: chat_plain_def call_def send_def Let_def split: sum.splits)


lemma ask_try_store:
  "user_request_data (ask_try msg en r c w) =
     (user_request_data w)(author_id msg \<mapsto> r(''count'' \<mapsto> JInt (c + 1)))"
  "request_count_file (ask_try msg en r c w) =
     Content ((user_request_data w)(author_id msg \<mapsto> r(''count'' \<mapsto> JInt (c + 1))))"
  by (simp_all add: ask_try_def Let_def save_user_request_data_def set_user_def
      split: option.splits)


lemma make_try_store:
  "user_request_data (make_try msg en r c w) =
     (user_request_data w)(author_id msg \<mapsto> r(''image_count'' \<mapsto> JInt (c + 1)))"
  "request_count_file (make_try msg en r c w) =
     Content ((user_request_data w)(author_id msg \<mapsto> r(''image_count'' \<mapsto> JInt (c + 1))))"
  by (simp_all add: make_try_def Let_def save_user_request_data_def set_user_def call_def send_def
      split: sum.splits)

lemma make_try_trace:
  "\<exists>rest. trace (make_try msg en r c w) =
      trace w @ Saved ((user_request_data w)(author_id msg \<mapsto> r(''image_count'' \<mapsto> JInt (c + 1))))
        # ImageCall (make_prompt (content msg)) # rest"
proof (cases "image_api en")
  case (Inl e)
  let ?w2 = "call (ImageCall (make_prompt (content msg)))
     (save_user_request_data (set_user (author_id msg) (r(''image_count'' \<mapsto> JInt (c + 1))) w))"
  obtain p s where "trace (except_make e ?w2) = trace ?w2 @ [Printed p, Sent s]"
    using except_make_trace by blast
  with Inl show ?thesis
    by (simp add: make_try_def Let_def save_user_request_data_def set_user_def call_def)
next
  case (Inr url)
  then show ?thesis
    by (simp add: make_try_def Let_def save_user_request_data_def set_user_def call_def send_def)
qed


subsection \<open>No record is deleted\<close>

lemma ask_branch_dom:
  "dom (user_request_data w) \<subseteq> dom (user_request_data (world_after (ask_branch msg en w)))"
  by (auto simp: ask_branch_def world_after_def getitem_def send_def ask_try_store
      split: option.splits sum.splits jval.splits)

lemma make_branch_dom:
  "dom (user_request_data w) \<subseteq> dom (user_request_data (world_after (make_branch msg en w)))"
  by (auto simp: make_branch_def world_after_def getitem_def send_def make_try_store
      split: option.splits sum.splits jval.splits)

lemma on_message_dom:
  "dom (user_request_data w) \<subseteq> dom (user_request_data (world_after (on_message msg en w)))"
proof (cases "author_is_client_user msg")
  case True
  then show ?thesis by (simp add: on_message_def world_after_def)
next
  case False
  show ?thesis
  proof (cases "check_and_reset_user_count (clock_check en) (author_id msg) w")
    case (Inl ew)
    with False check_dom [of w "clock_check en" "author_id msg"] show ?thesis
      by (simp add: on_message_def)
  next
    case (Inr w1)
    with check_dom [of w "clock_check en" "author_id msg"]
    have d1: "dom (user_request_data w) \<subseteq> dom (user_request_data w1)"
      by (simp add: world_after_def)
    have "dom (user_request_data w1) \<subseteq> dom (user_request_data (world_after (on_message msg en w)))"
      using False Inr ask_branch_dom [of w1 msg en] make_branch_dom [of w1 msg en]
      by (simp add: on_message_def world_after_def)
    with d1 show ?thesis by blast
  qed
qed

lemma on_messages_dom:
  "dom (user_request_data w) \<subseteq> dom (user_request_data (on_messages ms w))"
proof (induction ms arbitrary: w)
  case Nil
  show ?case by simp
next
  case (Cons m ms)
  obtain msg en where m: "m = (msg, en)" by (cases m)
  have "on_messages (m # ms) w = on_messages ms (world_after (on_message msg en w))"
    by (simp add: m world_after_def split: sum.splits prod.splits)
  with Cons.IH [of "world_after (on_message msg en w)"] on_message_dom [of w msg en]
  show ?case by auto
qed

subsection \<open>The file follows the dictionary\<close>

lemma ask_branch_file:
  assumes "request_count_file w = Content (user_request_data w)"
  shows "request_count_file (world_after (ask_branch msg en w)) =
     Content (user_request_data (world_after (ask_branch msg en w)))"
  using assms
  by (auto simp: ask_branch_def getitem_def send_def world_after_def ask_try_store
      split: option.splits sum.splits jval.splits)

lemma make_branch_file:
  assumes "request_count_file w = Content (user_request_data w)"
  shows "request_count_file (world_after (make_branch msg en w)) =
     Content (user_request_data (world_after (make_branch msg en w)))"
  using assms
  by (auto simp: make_branch_def getitem_def send_def world_after_def make_try_store
      split: option.splits sum.splits jval.splits)

subsection \<open>The fields after \<^verbatim>\<open>check_and_reset_user_count\<close> has returned\<close>

lemma check_returns_fields:
  assumes "user_request_data w user_id = Some r"
    and "check_and_reset_user_count now user_id w = Inr w'"
  shows "\<exists>r' lr lir ic. user_request_data w' user_id = Some r' \<and>
      r' ''last_reset'' = Some (JIso lr) \<and> r' ''last_image_reset'' = Some (JIso lir) \<and>
      r' ''image_count'' = Some ic \<and>
      (r' ''count'' = r ''count'' \<or> r' ''count'' = Some (JInt 0))"
proof -
  let ?r3 = "ensure_keys now r"
  from assms obtain v v' lr lir where
    g: "?r3 ''last_reset'' = Some v" "fromisoformat v = Inr lr"
       "?r3 ''last_image_reset'' = Some v'" "fromisoformat v' = Inr lir"
    and w': "w' = save_user_request_data (set_user user_id (reset_counts now lr lir ?r3) w)"
    by (auto simp: check_and_reset_user_count_def Let_def getitem_def
        split: option.splits sum.splits)
  from g have v: "v = JIso lr" and v': "v' = JIso lir"
    by (auto simp: fromisoformat_def split: jval.splits)
  let ?r' = "reset_counts now lr lir ?r3"
  have u: "user_request_data w' user_id = Some ?r'"
    by (simp add: w' save_user_request_data_def set_user_def)
  have "\<exists>ic. ?r3 ''image_count'' = Some ic"
    by (cases "r ''image_count''") (simp_all add: ensure_keys_fields)
  then obtain ic where ic: "?r3 ''image_count'' = Some ic"
    by blast
  have 1: "\<exists>t. ?r' ''last_reset'' = Some (JIso t)"
    using g(1) v by (simp add: reset_counts_def Let_def)
  have 2: "\<exists>t. ?r' ''last_image_reset'' = Some (JIso t)"
    using g(3) v' by (simp add: reset_counts_def Let_def)
  have 3: "\<exists>x. ?r' ''image_count'' = Some x"
    using ic by (simp add: reset_counts_def Let_def)
  have 4: "?r' ''count'' = r ''count'' \<or> ?r' ''count'' = Some (JInt 0)"
    by (simp add: reset_counts_def Let_def ensure_keys_fields)
  from u 1 2 3 4 show ?thesis by blast
qed

subsection \<open>The waiting time inside the window\<close>

text \<open>
  While the reset time lies ahead by less than a day, the reply shows the whole hours and
  the remaining whole minutes until then.
\<close>

lemma timedelta_seconds_inside_a_day:
  assumes "0 \<le> td" and "td < 86400000000"
  shows "timedelta_seconds td = td div 1000000"
  using assms by (simp add: timedelta_seconds_def)

lemma time_until_reset_inside_window:
  assumes "d user_id = Some r" and "r k = Some (JIso lr)"
    and "0 \<le> lr + 86400000000 - now" and "lr + 86400000000 - now < 86400000000"
    and "lr + 86400000000 \<le> DATETIME_MAX"
  shows "time_until_reset d user_id k now =
     Inr (str_int ((lr + 86400000000 - now) div 1000000 div 3600) @ ''h'' @
          str_int ((lr + 86400000000 - now) div 1000000 mod 3600 div 60) @ ''m'')"
  using assms
  by (simp add: time_until_reset_def getitem_def fromisoformat_def Let_def
      timedelta_hours_def RESET_HOURS_def timedelta_seconds_inside_a_day)

subsection \<open>Which handlers can run\<close>

text \<open>
  Every exception of the four \<^verbatim>\<open>openai\<close> classes is taken by the first clause,
  \<^verbatim>\<open>except APIError\<close>; the clauses for \<^verbatim>\<open>APIConnectionError\<close>, \<^verbatim>\<open>RateLimitError\<close>
  and \<^verbatim>\<open>AuthenticationError\<close> never run.
\<close>

lemma except_ask_reaches_two_handlers:
  "except_ask e w =
     (if e = Exception
      then send ''Sorry, something went wrong.'' (print ''An unexpected error occurred: '' w)
      else send ''Sorry, there was an issue with the AI service. Please try again later.''
             (print ''OpenAI API returned an API Error: '' w))"
  by (cases e) (simp_all add: except_ask_def)

lemma except_make_reaches_two_handlers:
  "except_make e w =
     (if e = Exception
      then send ''Sorry, something went wrong.'' (print ''An unexpected error occurred: '' w)
      else send ''Sorry, there was an issue with the image generation service. Please try again later.''
             (print ''OpenAI API returned an API Error: '' w))"
  by (cases e) (simp_all add: except_make_def)

subsection \<open>The prompt of an image request\<close>

text \<open>
  The character after the trigger \<^verbatim>\<open>!make\<close> is dropped whatever it is; the prompt is the
  text after the trigger, stripped, when that character is white space.
\<close>

lemma strip_leading_space:
  "isspace c \<Longrightarrow> strip (c # s) = strip s"
  by (simp add: strip_def)

lemma make_prompt_after_trigger:
  "make_prompt (''!make'' @ c # rest) = strip rest"
  by (simp add: make_prompt_def)

lemma make_prompt_after_separator:
  "isspace c \<Longrightarrow> make_prompt (''!make'' @ c # rest) = strip (drop (length ''!make'') (''!make'' @ c # rest))"
  by (simp add: make_prompt_def strip_leading_space)

subsection \<open>The request part at and below the limit\<close>

lemma time_until_reset_returns:
  assumes "d user_id = Some r" and "r k = Some (JIso t)" and "t + 86400000000 \<le> DATETIME_MAX"
  shows "\<exists>s. time_until_reset d user_id k now = Inr s"
  using assms
  by (simp add: time_until_reset_def getitem_def fromisoformat_def Let_def timedelta_hours_def
      RESET_HOURS_def)

lemma time_until_reset_overflows:
  assumes "d user_id = Some r" and "r k = Some (JIso t)" and "t + 86400000000 > DATETIME_MAX"
  shows "time_until_reset d user_id k now = Inl OverflowError"
  using assms
  by (simp add: time_until_reset_def getitem_def fromisoformat_def Let_def timedelta_hours_def
      RESET_HOURS_def)

lemma ask_branch_at_limit:
  assumes "user_request_data w (author_id msg) = Some r" and "r ''count'' = Some (JInt c)"
    and "c \<ge> 24"
  shows "ask_branch msg en w =
     (case time_until_reset (user_request_data w) (author_id msg) ''last_reset'' (clock_reply en) of
        Inl e \<Rightarrow> Inl (e, w)
      | Inr wait \<Rightarrow> Inr (w\<lparr>trace := trace w @
          [Sent (''Sorry, you've reached the maximum number of requests allowed for today. Please wait ''
                 @ wait @ '' before trying again.'')]\<rparr>))"
  using assms
  by (simp add: ask_branch_def getitem_def REQUEST_LIMIT_def send_def ask_limit_message_def
      split: sum.splits)

lemma make_branch_at_limit:
  assumes "user_request_data w (author_id msg) = Some r" and "r ''image_count'' = Some (JInt c)"
    and "c \<ge> 12"
  shows "make_branch msg en w =
     (case time_until_reset (user_request_data w) (author_id msg) ''last_image_reset''
             (clock_reply en) of
        Inl e \<Rightarrow> Inl (e, w)
      | Inr wait \<Rightarrow> Inr (w\<lparr>trace := trace w @
          [Sent (''Sorry, you've reached the maximum number of image requests allowed for today. Please wait ''
                 @ wait @ '' before trying again.'')]\<rparr>))"
  using assms
  by (simp add: make_branch_def getitem_def IMAGE_REQUEST_LIMIT_def send_def
      make_limit_message_def split: sum.splits)


subsection \<open>The window check on a record with defaults filled in\<close>

lemma check_returns:
  assumes "user_request_data w user_id = Some r"
    and "ensure_keys now r ''last_reset'' = Some (JIso lr)"
    and "ensure_keys now r ''last_image_reset'' = Some (JIso lir)"
  shows "check_and_reset_user_count now user_id w =
     Inr (w\<lparr>user_request_data := (user_request_data w)(user_id \<mapsto> reset_counts now lr lir (ensure_keys now r)),
            request_count_file := Content ((user_request_data w)(user_id \<mapsto> reset_counts now lr lir (ensure_keys now r))),
            trace := trace w @ [Saved ((user_request_data w)(user_id \<mapsto> reset_counts now lr lir (ensure_keys now r)))]\<rparr>)"
  using assms
  by (simp add: check_and_reset_user_count_def save_user_request_data_def set_user_def Let_def
      getitem_def fromisoformat_def)

lemma ensure_keys_all_fields:
  "ensure_keys now r k =
     (if r k \<noteq> None then r k
      else if k = ''last_reset'' \<or> k = ''last_image_reset'' then Some (JIso now)
      else if k = ''image_count'' then Some (JInt 0)
      else None)"
  by (auto simp: ensure_keys_def Let_def)

subsection \<open>Messages of other users\<close>







subsection \<open>What a message of the user does to the text fields, and whether it calls\<close>

lemma list_ex_chat_call_simps [simp]:
  "is_chat_call (ChatCall q a)" "\<not> is_chat_call (Saved d)" "\<not> is_chat_call (Sent s)"
  "\<not> is_chat_call (Printed p)" "\<not> is_chat_call (ImageCall i)"
  by (simp_all add: is_chat_call_def)





subsection \<open>A run of messages inside a text window\<close>





subsection \<open>How a window opens, and one text request in it\<close>





section \<open>The claims\<close>



text \<open>
  C2, as amended. For a user whose record has both reset times and the image counter, each
  window is checked on its own: the counter is set to 0 and its reset time to \<open>now\<close> exactly when
  \<open>now - lastReset\<close> is strictly more than 24 hours (86400000000 microseconds); otherwise
  counter and reset time stay. At the instant \<open>now = lastReset + 24h\<close> nothing is reset:
  the fresh window begins with the first check strictly after that instant.
\<close>

theorem window_reset_strictly_after_24h:
  assumes "user_request_data w user_id = Some r"
    and "r ''last_reset'' = Some (JIso lr)" and "r ''last_image_reset'' = Some (JIso lir)"
    and "r ''image_count'' = Some ic"
  shows "\<exists>w' r'. check_and_reset_user_count now user_id w = Inr w' \<and>
    user_request_data w' user_id = Some r' \<and>
    (if now - lr > 86400000000
     then r' ''count'' = Some (JInt 0) \<and> r' ''last_reset'' = Some (JIso now)
     else r' ''count'' = r ''count'' \<and> r' ''last_reset'' = Some (JIso lr)) \<and>
    (if now - lir > 86400000000
     then r' ''image_count'' = Some (JInt 0) \<and> r' ''last_image_reset'' = Some (JIso now)
     else r' ''image_count'' = Some ic \<and> r' ''last_image_reset'' = Some (JIso lir)) \<and>
    (now = lr + 86400000000 \<longrightarrow> r' ''count'' = r ''count'' \<and> r' ''last_reset'' = Some (JIso lr))"
proof -
  let ?r' = "reset_counts now lr lir r"
  have e: "ensure_keys now r = r"
    using assms by (simp add: ensure_keys_id)
  have c: "\<exists>w'. check_and_reset_user_count now user_id w = Inr w' \<and>
      user_request_data w' user_id = Some ?r'"
    using check_present [OF assms(1-3), of now] e by simp
  have t: "if now - lr > 86400000000
     then ?r' ''count'' = Some (JInt 0) \<and> ?r' ''last_reset'' = Some (JIso now)
     else ?r' ''count'' = r ''count'' \<and> ?r' ''last_reset'' = Some (JIso lr)"
    using assms(2) by (simp add: reset_counts_text_keep reset_counts_text_reset)
  have i: "if now - lir > 86400000000
     then ?r' ''image_count'' = Some (JInt 0) \<and> ?r' ''last_image_reset'' = Some (JIso now)
     else ?r' ''image_count'' = Some ic \<and> ?r' ''last_image_reset'' = Some (JIso lir)"
    using assms(3,4) by (simp add: reset_counts_image_keep reset_counts_image_reset)
  have b: "now = lr + 86400000000 \<longrightarrow> ?r' ''count'' = r ''count'' \<and> ?r' ''last_reset'' = Some (JIso lr)"
    using assms(2) by (simp add: reset_counts_text_keep)
  from c t i b show ?thesis by blast
qed

theorem window_reset_strictly_after_24h_witness:
  "\<exists>w' r'. check_and_reset_user_count 86400000001 ''u1'' (loaded [''u1'' \<mapsto> full_record 5 3 0 7]) = Inr w' \<and>
     user_request_data w' ''u1'' = Some r' \<and>
     r' ''count'' = Some (JInt 0) \<and> r' ''last_reset'' = Some (JIso 86400000001) \<and>
     r' ''image_count'' = Some (JInt 3) \<and> r' ''last_image_reset'' = Some (JIso 7)"
  using window_reset_strictly_after_24h
    [of "loaded [''u1'' \<mapsto> full_record 5 3 0 7]" "''u1''" "full_record 5 3 0 7" 0 7 "JInt 3"
        86400000001]
  by (simp add: loaded_def full_record_def)

text \<open>
  C2 as stated fails at the boundary: a check at exactly \<open>lastReset + 24h\<close> leaves the
  counter at 5 and the reset time where it was.
\<close>

theorem reset_at_exact_boundary_counterexample:
  "field_of (world_after (check_and_reset_user_count (0 + 86400000000) ''u1''
       (loaded [''u1'' \<mapsto> full_record 5 3 0 0]))) ''u1'' ''count'' = Some (JInt 5) \<and>
   field_of (world_after (check_and_reset_user_count (0 + 86400000000) ''u1''
       (loaded [''u1'' \<mapsto> full_record 5 3 0 0]))) ''u1'' ''last_reset'' = Some (JIso 0)"
  by (simp add: check_and_reset_user_count_def loaded_def full_record_def ensure_keys_def
      reset_counts_def getitem_def fromisoformat_def timedelta_hours_def RESET_HOURS_def
      save_user_request_data_def set_user_def world_after_def field_of_def Let_def)

text \<open>
  C3. The window check first fills in the defaults of lines 55 to 60 (a record that has the
  three fields stays as it is) and then resets. When only the text window has run out, the
  reset changes the \<^verbatim>\<open>count\<close> and \<^verbatim>\<open>last_reset\<close> fields of that user and nothing else
  in the mapping; when only the image window has run out, it changes \<^verbatim>\<open>image_count\<close> and
  \<^verbatim>\<open>last_image_reset\<close> and nothing else; when both have, it changes the four; when none
  has, nothing. The times compared are the ones of the record with the defaults filled in.
\<close>

theorem window_resets_are_independent:
  assumes "user_request_data w user_id = Some r"
    and "ensure_keys now r ''last_reset'' = Some (JIso lr)"
    and "ensure_keys now r ''last_image_reset'' = Some (JIso lir)"
  shows "(\<exists>w'. check_and_reset_user_count now user_id w = Inr w' \<and>
    user_request_data w' = (user_request_data w)(user_id \<mapsto>
      (if now - lr > 86400000000 \<and> \<not> now - lir > 86400000000
         then (ensure_keys now r)(''count'' \<mapsto> JInt 0, ''last_reset'' \<mapsto> JIso now)
       else if \<not> now - lr > 86400000000 \<and> now - lir > 86400000000
         then (ensure_keys now r)(''image_count'' \<mapsto> JInt 0, ''last_image_reset'' \<mapsto> JIso now)
       else if now - lr > 86400000000 \<and> now - lir > 86400000000
         then (ensure_keys now r)(''count'' \<mapsto> JInt 0, ''last_reset'' \<mapsto> JIso now,
                ''image_count'' \<mapsto> JInt 0, ''last_image_reset'' \<mapsto> JIso now)
       else ensure_keys now r))) \<and>
    (\<forall>k. ensure_keys now r k =
       (if r k \<noteq> None then r k
        else if k = ''last_reset'' \<or> k = ''last_image_reset'' then Some (JIso now)
        else if k = ''image_count'' then Some (JInt 0)
        else None)) \<and>
    (r ''last_reset'' \<noteq> None \<and> r ''image_count'' \<noteq> None \<and> r ''last_image_reset'' \<noteq> None
       \<longrightarrow> ensure_keys now r = r)"
proof -
  have a: "\<exists>w'. check_and_reset_user_count now user_id w = Inr w' \<and>
    user_request_data w' = (user_request_data w)(user_id \<mapsto>
      (if now - lr > 86400000000 \<and> \<not> now - lir > 86400000000
         then (ensure_keys now r)(''count'' \<mapsto> JInt 0, ''last_reset'' \<mapsto> JIso now)
       else if \<not> now - lr > 86400000000 \<and> now - lir > 86400000000
         then (ensure_keys now r)(''image_count'' \<mapsto> JInt 0, ''last_image_reset'' \<mapsto> JIso now)
       else if now - lr > 86400000000 \<and> now - lir > 86400000000
         then (ensure_keys now r)(''count'' \<mapsto> JInt 0, ''last_reset'' \<mapsto> JIso now,
                ''image_count'' \<mapsto> JInt 0, ''last_image_reset'' \<mapsto> JIso now)
       else ensure_keys now r))"
    using check_returns [OF assms, of ]
    by (simp add: reset_counts_def Let_def timedelta_hours_def RESET_HOURS_def)
  have c: "r ''last_reset'' \<noteq> None \<and> r ''image_count'' \<noteq> None \<and> r ''last_image_reset'' \<noteq> None
       \<longrightarrow> ensure_keys now r = r"
    by (auto simp: ensure_keys_def Let_def)
  from a c show ?thesis
    using ensure_keys_all_fields by blast
qed

theorem window_resets_are_independent_witness:
  "(\<exists>w'. check_and_reset_user_count 86400000008 ''u1''
        (loaded [''u1'' \<mapsto> [''count'' \<mapsto> JInt 5, ''last_reset'' \<mapsto> JIso 7]]) = Inr w' \<and>
      user_request_data w' =
        [''u1'' \<mapsto> (ensure_keys 86400000008 [''count'' \<mapsto> JInt 5, ''last_reset'' \<mapsto> JIso 7])
           (''count'' \<mapsto> JInt 0, ''last_reset'' \<mapsto> JIso 86400000008)]) \<and>
   (\<exists>w'. check_and_reset_user_count 86400000008 ''u1'' (loaded [''u1'' \<mapsto> full_record 5 3 7 9]) = Inr w' \<and>
      user_request_data w' =
        [''u1'' \<mapsto> (full_record 5 3 7 9)(''count'' \<mapsto> JInt 0, ''last_reset'' \<mapsto> JIso 86400000008)])"
proof -
  define legacy :: user_record where "legacy = [''count'' \<mapsto> JInt 5, ''last_reset'' \<mapsto> JIso 7]"
  have l1: "user_request_data (loaded [''u1'' \<mapsto> legacy]) ''u1'' = Some legacy"
    by (simp add: loaded_def)
  have l2: "ensure_keys 86400000008 legacy ''last_reset'' = Some (JIso 7)"
    and l3: "ensure_keys 86400000008 legacy ''last_image_reset'' = Some (JIso 86400000008)"
    by (simp_all add: legacy_def ensure_keys_def)
  have f1: "user_request_data (loaded [''u1'' \<mapsto> full_record 5 3 7 9]) ''u1'' = Some (full_record 5 3 7 9)"
    by (simp add: loaded_def)
  have f2: "ensure_keys 86400000008 (full_record 5 3 7 9) ''last_reset'' = Some (JIso 7)"
    and f3: "ensure_keys 86400000008 (full_record 5 3 7 9) ''last_image_reset'' = Some (JIso 9)"
    and f4: "ensure_keys 86400000008 (full_record 5 3 7 9) = full_record 5 3 7 9"
    by (simp_all add: full_record_def ensure_keys_def)
  from window_resets_are_independent [OF l1 l2 l3]
  have a: "\<exists>w'. check_and_reset_user_count 86400000008 ''u1'' (loaded [''u1'' \<mapsto> legacy]) = Inr w' \<and>
      user_request_data w' =
        [''u1'' \<mapsto> (ensure_keys 86400000008 legacy)
           (''count'' \<mapsto> JInt 0, ''last_reset'' \<mapsto> JIso 86400000008)]"
    by (simp add: loaded_def)
  from window_resets_are_independent [OF f1 f2 f3]
  have b: "\<exists>w'. check_and_reset_user_count 86400000008 ''u1'' (loaded [''u1'' \<mapsto> full_record 5 3 7 9]) = Inr w' \<and>
      user_request_data w' =
        [''u1'' \<mapsto> (full_record 5 3 7 9)(''count'' \<mapsto> JInt 0, ''last_reset'' \<mapsto> JIso 86400000008)]"
    by (simp add: loaded_def f4)
  from a b show ?thesis unfolding legacy_def by blast
qed

text \<open>
  C4. The claim: \<^verbatim>\<open>time_until_reset\<close> never shows a passed reset time as a large positive
  wait. The code reads \<^verbatim>\<open>timedelta.seconds\<close>, which for a negative duration is the seconds
  part of a day count of -1: one microsecond past \<open>lastReset + 24h\<close> the function returns
  \<^verbatim>\<open>23h59m\<close>. The dispatcher gets there when the check of line 64 runs at exactly
  \<open>lastReset + 24h\<close> (no reset yet) and line 79 reads the clock a microsecond later.
\<close>

theorem time_until_reset_past_the_boundary:
  "time_until_reset [''u1'' \<mapsto> full_record 24 0 0 0] ''u1'' ''last_reset'' (86400000000 + 1) =
     Inr ''23h59m'' \<and>
   replies (world_after (on_message (text_message ''u1'' ''!ask hi'')
       (services 86400000000 (86400000000 + 1) (Inr ''hello''))
       (loaded [''u1'' \<mapsto> full_record 24 0 0 0]))) =
     [''Sorry, you've reached the maximum number of requests allowed for today. Please wait 23h59m before trying again.'']"
  by (simp add: check_and_reset_user_count_def loaded_def ensure_keys_def full_record_def
      reset_counts_def getitem_def fromisoformat_def timedelta_hours_def RESET_HOURS_def
      save_user_request_data_def set_user_def world_after_def Let_def
      on_message_def text_message_def services_def startswith_def ask_branch_def
      time_until_reset_def DATETIME_MAX_def timedelta_seconds_def str_int_def str_nat.simps REQUEST_LIMIT_def
      send_def replies_def ask_limit_message_def)

text \<open>
  C5. With the counter of the capability at or above its limit (24 for text, 12 for images),
  the request part of the handler, which runs after the windows were refreshed, admits
  nothing and changes neither the dictionary nor the file: it computes the waiting time and
  sends the quota message, or, where the waiting time cannot be computed, raises with the
  world as it found it. The waiting time can be computed when the reset time of the
  capability is a time not in the last 24 hours before \<^verbatim>\<open>datetime.max\<close>; in those last
  24 hours line 78 raises \<^verbatim>\<open>OverflowError\<close>.
\<close>

theorem denied_request_mutates_nothing:
  assumes "user_request_data w (author_id msg) = Some r"
  shows "(r ''count'' = Some (JInt c) \<and> c \<ge> 24 \<longrightarrow>
      user_request_data (world_after (ask_branch msg en w)) = user_request_data w \<and>
      request_count_file (world_after (ask_branch msg en w)) = request_count_file w \<and>
      ask_branch msg en w =
        (case time_until_reset (user_request_data w) (author_id msg) ''last_reset''
                (clock_reply en) of
           Inl e \<Rightarrow> Inl (e, w)
         | Inr wait \<Rightarrow> Inr (w\<lparr>trace := trace w @
             [Sent (''Sorry, you've reached the maximum number of requests allowed for today. Please wait ''
                    @ wait @ '' before trying again.'')]\<rparr>)) \<and>
      (r ''last_reset'' = Some (JIso lr) \<and> lr + 86400000000 \<le> DATETIME_MAX \<longrightarrow>
         (\<exists>wait. time_until_reset (user_request_data w) (author_id msg) ''last_reset''
                    (clock_reply en) = Inr wait)) \<and>
      (r ''last_reset'' = Some (JIso lr) \<and> lr + 86400000000 > DATETIME_MAX \<longrightarrow>
         ask_branch msg en w = Inl (OverflowError, w))) \<and>
    (r ''image_count'' = Some (JInt c) \<and> c \<ge> 12 \<longrightarrow>
      user_request_data (world_after (make_branch msg en w)) = user_request_data w \<and>
      request_count_file (world_after (make_branch msg en w)) = request_count_file w \<and>
      make_branch msg en w =
        (case time_until_reset (user_request_data w) (author_id msg) ''last_image_reset''
                (clock_reply en) of
           Inl e \<Rightarrow> Inl (e, w)
         | Inr wait \<Rightarrow> Inr (w\<lparr>trace := trace w @
             [Sent (''Sorry, you've reached the maximum number of image requests allowed for today. Please wait ''
                    @ wait @ '' before trying again.'')]\<rparr>)) \<and>
      (r ''last_image_reset'' = Some (JIso lr) \<and> lr + 86400000000 \<le> DATETIME_MAX \<longrightarrow>
         (\<exists>wait. time_until_reset (user_request_data w) (author_id msg) ''last_image_reset''
                    (clock_reply en) = Inr wait)) \<and>
      (r ''last_image_reset'' = Some (JIso lr) \<and> lr + 86400000000 > DATETIME_MAX \<longrightarrow>
         make_branch msg en w = Inl (OverflowError, w)))"
proof -
  have a: "r ''count'' = Some (JInt c) \<and> c \<ge> 24 \<longrightarrow>
      user_request_data (world_after (ask_branch msg en w)) = user_request_data w \<and>
      request_count_file (world_after (ask_branch msg en w)) = request_count_file w"
    using assms ask_branch_at_limit [of w msg r c en]
    by (simp add: world_after_def split: sum.splits)
  have m: "r ''image_count'' = Some (JInt c) \<and> c \<ge> 12 \<longrightarrow>
      user_request_data (world_after (make_branch msg en w)) = user_request_data w \<and>
      request_count_file (world_after (make_branch msg en w)) = request_count_file w"
    using assms make_branch_at_limit [of w msg r c en]
    by (simp add: world_after_def split: sum.splits)
  have ao: "r ''count'' = Some (JInt c) \<and> c \<ge> 24 \<and>
      r ''last_reset'' = Some (JIso lr) \<and> lr + 86400000000 > DATETIME_MAX \<longrightarrow>
         ask_branch msg en w = Inl (OverflowError, w)"
    using assms ask_branch_at_limit [of w msg r c en]
      time_until_reset_overflows [of "user_request_data w" "author_id msg" r "''last_reset''" lr
        "clock_reply en"]
    by simp
  have mo: "r ''image_count'' = Some (JInt c) \<and> c \<ge> 12 \<and>
      r ''last_image_reset'' = Some (JIso lr) \<and> lr + 86400000000 > DATETIME_MAX \<longrightarrow>
         make_branch msg en w = Inl (OverflowError, w)"
    using assms make_branch_at_limit [of w msg r c en]
      time_until_reset_overflows [of "user_request_data w" "author_id msg" r
        "''last_image_reset''" lr "clock_reply en"]
    by simp
  show ?thesis
    using a m ao mo assms ask_branch_at_limit [of w msg r c en]
      make_branch_at_limit [of w msg r c en]
      time_until_reset_returns [of "user_request_data w" "author_id msg" r "''last_reset''" lr
        "clock_reply en"]
      time_until_reset_returns [of "user_request_data w" "author_id msg" r "''last_image_reset''" lr
        "clock_reply en"]
    by blast
qed

theorem denied_request_mutates_nothing_witness:
  "ask_branch (text_message ''u1'' ''!ask hi'') (services 5 6 (Inr ''hello''))
       (loaded [''u1'' \<mapsto> full_record 24 12 0 0]) =
     Inr \<lparr>user_request_data = [''u1'' \<mapsto> full_record 24 12 0 0],
          request_count_file = Content [''u1'' \<mapsto> full_record 24 12 0 0],
          trace = [Sent ''Sorry, you've reached the maximum number of requests allowed for today. Please wait 23h59m before trying again.'']\<rparr> \<and>
   user_request_data (world_after (ask_branch (text_message ''u1'' ''!ask hi'')
       (services 5 6 (Inr ''hello'')) (loaded [''u1'' \<mapsto> full_record 24 12 0 0]))) =
     [''u1'' \<mapsto> full_record 24 12 0 0] \<and>
   request_count_file (world_after (ask_branch (text_message ''u1'' ''!ask hi'')
       (services 5 6 (Inr ''hello'')) (loaded [''u1'' \<mapsto> full_record 24 12 0 0]))) =
     Content [''u1'' \<mapsto> full_record 24 12 0 0]"
proof -
  define w where "w = loaded [''u1'' \<mapsto> full_record 24 12 0 0]"
  define msg where "msg = text_message ''u1'' ''!ask hi''"
  define en where "en = services 5 6 (Inr ''hello'')"
  have h: "user_request_data w (author_id msg) = Some (full_record 24 12 0 0)"
    by (simp add: w_def msg_def loaded_def text_message_def)
  have c: "full_record 24 12 0 0 ''count'' = Some (JInt 24) \<and> (24::int) \<ge> 24"
    by (simp add: full_record_def)
  have t: "time_until_reset (user_request_data w) (author_id msg) ''last_reset'' (clock_reply en)
      = Inr ''23h59m''"
    by (simp add: w_def msg_def en_def loaded_def text_message_def services_def full_record_def
        time_until_reset_def getitem_def fromisoformat_def timedelta_hours_def RESET_HOURS_def
        DATETIME_MAX_def timedelta_seconds_def str_int_def str_nat.simps Let_def)
  note T = denied_request_mutates_nothing [OF h, of 24 en 0]
  from T c have s1: "user_request_data (world_after (ask_branch msg en w)) = user_request_data w"
    and s2: "request_count_file (world_after (ask_branch msg en w)) = request_count_file w"
    and s3: "ask_branch msg en w =
        (case time_until_reset (user_request_data w) (author_id msg) ''last_reset''
                (clock_reply en) of
           Inl e \<Rightarrow> Inl (e, w)
         | Inr wait \<Rightarrow> Inr (w\<lparr>trace := trace w @
             [Sent (''Sorry, you've reached the maximum number of requests allowed for today. Please wait ''
                    @ wait @ '' before trying again.'')]\<rparr>))"
    by blast+
  from s3 have s4: "ask_branch msg en w = Inr (w\<lparr>trace := trace w @
      [Sent (''Sorry, you've reached the maximum number of requests allowed for today. Please wait ''
             @ ''23h59m'' @ '' before trying again.'')]\<rparr>)"
    by (simp only: t sum.case)
  from s1 s2 s4 show ?thesis
    by (simp add: w_def msg_def en_def loaded_def)
qed

text \<open>
  C6. The claim: a failing call leaves the incremented counter in place and is answered with
  the apology of its kind. On an \<^verbatim>\<open>AuthenticationError\<close> for the first text request of a new
  user, the counter is saved at 1 before the call and stays there, but the reply is the one
  of the \<^verbatim>\<open>except APIError\<close> clause, not the one about credits.
\<close>

theorem authentication_failure_gets_generic_reply:
  "trace (world_after (on_message (text_message ''u1'' ''!ask hi'')
       (services 5 6 (Inl AuthenticationError)) (loaded Map.empty))) =
     [Saved [''u1'' \<mapsto> new_record 5],
      Saved [''u1'' \<mapsto> (new_record 5)(''count'' \<mapsto> JInt 1)],
      ChatCall ''!ask hi'' None,
      Printed ''OpenAI API returned an API Error: '',
      Sent ''Sorry, there was an issue with the AI service. Please try again later.''] \<and>
   field_of (world_after (on_message (text_message ''u1'' ''!ask hi'')
       (services 5 6 (Inl AuthenticationError)) (loaded Map.empty))) ''u1'' ''count'' =
     Some (JInt 1)"
  by (simp add: check_and_reset_user_count_def loaded_def
      save_user_request_data_def set_user_def world_after_def Let_def field_of_def
      on_message_def text_message_def services_def startswith_def ask_branch_def
      getitem_def new_record_def REQUEST_LIMIT_def ask_try_def chat_plain_def call_def
      except_ask_def send_def print_def)

text \<open>
  C7. A start that finds the file loads its mapping unchanged; a start that finds none
  begins with the empty mapping and dumps it at once. After
  \<^verbatim>\<open>check_and_reset_user_count\<close> has returned (a record created, a window reset) the last
  thing done is a dump of the whole mapping, and the file holds the dictionary; the same
  after the increment of an admitted text or image request, and at the end of the handling
  of any message whose window check returned.
\<close>

theorem mapping_saved_after_every_mutation:
  "load_user_request_data (Content m) =
     Inr \<lparr>user_request_data = m, request_count_file = Content m, trace = []\<rparr> \<and>
   load_user_request_data Absent =
     Inr \<lparr>user_request_data = Map.empty, request_count_file = Content Map.empty,
          trace = [Saved Map.empty]\<rparr> \<and>
   (check_and_reset_user_count now user_id w = Inr w1 \<longrightarrow>
      request_count_file w1 = Content (user_request_data w1) \<and>
      trace w1 = trace w @ [Saved (user_request_data w1)]) \<and>
   request_count_file (ask_try msg en r c w) = Content (user_request_data (ask_try msg en r c w)) \<and>
   request_count_file (make_try msg en r c w) = Content (user_request_data (make_try msg en r c w)) \<and>
   (\<not> author_is_client_user msg \<and>
    check_and_reset_user_count (clock_check en) (author_id msg) w = Inr w2 \<longrightarrow>
      request_count_file (world_after (on_message msg en w)) =
        Content (user_request_data (world_after (on_message msg en w))))"
proof -
  have a: "check_and_reset_user_count now user_id w = Inr w1 \<longrightarrow>
      request_count_file w1 = Content (user_request_data w1) \<and>
      trace w1 = trace w @ [Saved (user_request_data w1)]"
    using check_saved by blast
  have b: "\<not> author_is_client_user msg \<and>
    check_and_reset_user_count (clock_check en) (author_id msg) w = Inr w2 \<longrightarrow>
      request_count_file (world_after (on_message msg en w)) =
        Content (user_request_data (world_after (on_message msg en w)))"
  proof
    assume h: "\<not> author_is_client_user msg \<and>
      check_and_reset_user_count (clock_check en) (author_id msg) w = Inr w2"
    then have f: "request_count_file w2 = Content (user_request_data w2)"
      using check_saved by blast
    from h have "on_message msg en w =
        (if startswith (content msg) ''!ask'' then ask_branch msg en w2
         else if startswith (content msg) ''!make'' then make_branch msg en w2
         else Inr w2)"
      by (simp add: on_message_def)
    then show "request_count_file (world_after (on_message msg en w)) =
        Content (user_request_data (world_after (on_message msg en w)))"
      using f ask_branch_file [OF f, of msg en] make_branch_file [OF f, of msg en]
      by (simp add: world_after_def)
  qed
  show ?thesis
    using a b by (simp add: load_user_request_data_def ask_try_store make_try_store)
qed

theorem mapping_saved_after_every_mutation_witness:
  "check_and_reset_user_count 5 ''u1'' (loaded Map.empty) =
     Inr \<lparr>user_request_data = [''u1'' \<mapsto> new_record 5],
          request_count_file = Content [''u1'' \<mapsto> new_record 5],
          trace = [Saved [''u1'' \<mapsto> new_record 5]]\<rparr> \<and>
   request_count_file (world_after (on_message (text_message ''u1'' ''!ask hi'')
       (services 5 6 (Inr ''hello'')) (loaded Map.empty))) =
     Content (user_request_data (world_after (on_message (text_message ''u1'' ''!ask hi'')
       (services 5 6 (Inr ''hello'')) (loaded Map.empty))))"
proof -
  let ?w1 = "\<lparr>user_request_data = [''u1'' \<mapsto> new_record 5],
          request_count_file = Content [''u1'' \<mapsto> new_record 5],
          trace = [Saved [''u1'' \<mapsto> new_record 5]]\<rparr>"
  have c: "check_and_reset_user_count 5 ''u1'' (loaded Map.empty) = Inr ?w1"
    by (simp add: check_new loaded_def)
  have n: "\<not> author_is_client_user (text_message ''u1'' ''!ask hi'')"
    and i: "author_id (text_message ''u1'' ''!ask hi'') = ''u1''"
    and k: "clock_check (services 5 6 (Inr ''hello'')) = 5"
    by (simp_all add: text_message_def services_def)
  from mapping_saved_after_every_mutation
    [of Map.empty 5 "''u1''" "loaded Map.empty" ?w1 "text_message ''u1'' ''!ask hi''"
        "services 5 6 (Inr ''hello'')" Map.empty 0 ?w1]
    c n i k
  show ?thesis by simp
qed

text \<open>
  C8. The claim: the prompt is the message text without the trigger, stripped. The message
  \<^verbatim>\<open>!makeup tips\<close> begins with the trigger \<^verbatim>\<open>!make\<close> and is admitted, but line 174 cuts
  \<^verbatim>\<open>len("!make ")\<close>, six characters: the service is called with \<^verbatim>\<open>p tips\<close>, where the
  text without the trigger is \<^verbatim>\<open>up tips\<close>.
\<close>

theorem make_prompt_drops_a_character:
  "make_prompt ''!makeup tips'' = ''p tips'' \<and>
   strip (drop (length ''!make'') ''!makeup tips'') = ''up tips'' \<and>
   trace (world_after (on_message (text_message ''u1'' ''!makeup tips'')
       (services 5 6 (Inr ''http://img'')) (loaded Map.empty))) =
     [Saved [''u1'' \<mapsto> new_record 5],
      Saved [''u1'' \<mapsto> (new_record 5)(''image_count'' \<mapsto> JInt 1)],
      ImageCall ''p tips'',
      Sent ''Here is your generated image: http://img'']"
  by (simp add: check_and_reset_user_count_def loaded_def
      save_user_request_data_def set_user_def world_after_def Let_def
      on_message_def text_message_def services_def startswith_def make_branch_def
      getitem_def new_record_def IMAGE_REQUEST_LIMIT_def make_try_def call_def
      make_prompt_def strip_def isspace_def send_def)

text \<open>
  C9. A user who is not in the store gets, from \<^verbatim>\<open>check_and_reset_user_count\<close>, a record
  with both counters 0 and both reset times equal to the time of the call; and neither that
  function, nor the handling of one message, nor the handling of any sequence of messages
  removes a key from the mapping, whether they return or raise.
\<close>

theorem new_user_record_and_no_deletion:
  "(user_request_data w user_id = None \<longrightarrow>
      raised (check_and_reset_user_count now user_id w) = None \<and>
      user_request_data (world_after (check_and_reset_user_count now user_id w)) user_id =
        Some [''count'' \<mapsto> JInt 0, ''image_count'' \<mapsto> JInt 0,
              ''last_reset'' \<mapsto> JIso now, ''last_image_reset'' \<mapsto> JIso now]) \<and>
   dom (user_request_data w)
     \<subseteq> dom (user_request_data (world_after (check_and_reset_user_count now user_id w))) \<and>
   dom (user_request_data w) \<subseteq> dom (user_request_data (world_after (on_message msg en w))) \<and>
   dom (user_request_data w) \<subseteq> dom (user_request_data (on_messages ms w))"
proof -
  have "user_request_data w user_id = None \<longrightarrow>
      raised (check_and_reset_user_count now user_id w) = None \<and>
      user_request_data (world_after (check_and_reset_user_count now user_id w)) user_id =
        Some [''count'' \<mapsto> JInt 0, ''image_count'' \<mapsto> JInt 0,
              ''last_reset'' \<mapsto> JIso now, ''last_image_reset'' \<mapsto> JIso now]"
    by (simp add: check_new raised_def world_after_def new_record_def)
  then show ?thesis
    using check_dom on_message_dom on_messages_dom by blast
qed

theorem new_user_record_and_no_deletion_witness:
  "user_request_data (loaded Map.empty) ''u1'' = None \<and>
   raised (check_and_reset_user_count 5 ''u1'' (loaded Map.empty)) = None \<and>
   user_request_data (world_after (check_and_reset_user_count 5 ''u1'' (loaded Map.empty))) ''u1'' =
     Some [''count'' \<mapsto> JInt 0, ''image_count'' \<mapsto> JInt 0,
           ''last_reset'' \<mapsto> JIso 5, ''last_image_reset'' \<mapsto> JIso 5]"
  using new_user_record_and_no_deletion
    [of "loaded Map.empty" "''u1''" 5 "text_message ''u1'' ''!ask hi''"
        "services 5 6 (Inr ''hello'')" "[]"]
  by (simp add: loaded_def)

text \<open>
  C10, as amended. For a user whose loaded record has the field \<^verbatim>\<open>count\<close>, once
  \<^verbatim>\<open>check_and_reset_user_count\<close> has returned the record has the four fields the
  dispatcher reads, and neither request part raises \<^verbatim>\<open>KeyError\<close> for that user.
\<close>

theorem fields_present_after_check:
  assumes "user_request_data w user_id = Some r" and "r ''count'' = Some v"
    and "check_and_reset_user_count now user_id w = Inr w'"
  shows "\<exists>r'. user_request_data w' user_id = Some r' \<and>
      {''count'', ''image_count'', ''last_reset'', ''last_image_reset''} \<subseteq> dom r' \<and>
      (author_id msg = user_id \<longrightarrow>
         raised (ask_branch msg en w') \<noteq> Some KeyError \<and>
         raised (make_branch msg en w') \<noteq> Some KeyError)"
proof -
  from check_returns_fields [OF assms(1,3)] assms(2)
  obtain r' lr lir ic cv where r': "user_request_data w' user_id = Some r'"
    "r' ''last_reset'' = Some (JIso lr)" "r' ''last_image_reset'' = Some (JIso lir)"
    "r' ''image_count'' = Some ic" "r' ''count'' = Some cv"
    by auto
  then have d: "{''count'', ''image_count'', ''last_reset'', ''last_image_reset''} \<subseteq> dom r'"
    by auto
  have a: "author_id msg = user_id \<longrightarrow> raised (ask_branch msg en w') \<noteq> Some KeyError"
    using r'
    by (auto simp: ask_branch_def getitem_def raised_def time_until_reset_def fromisoformat_def
        Let_def split: jval.splits if_splits)
  have m: "author_id msg = user_id \<longrightarrow> raised (make_branch msg en w') \<noteq> Some KeyError"
    using r'
    by (auto simp: make_branch_def getitem_def raised_def time_until_reset_def fromisoformat_def
        Let_def split: jval.splits if_splits)
  from r'(1) d a m show ?thesis by blast
qed

theorem fields_present_after_check_witness:
  "\<exists>r'. user_request_data (world_after (check_and_reset_user_count 5 ''u1''
        (loaded [''u1'' \<mapsto> [''count'' \<mapsto> JInt 3]]))) ''u1'' = Some r' \<and>
      {''count'', ''image_count'', ''last_reset'', ''last_image_reset''} \<subseteq> dom r' \<and>
      raised (ask_branch (text_message ''u1'' ''!ask hi'') (services 5 6 (Inr ''hello''))
        (world_after (check_and_reset_user_count 5 ''u1''
           (loaded [''u1'' \<mapsto> [''count'' \<mapsto> JInt 3]])))) \<noteq> Some KeyError"
proof -
  define w where "w = loaded [''u1'' \<mapsto> [''count'' \<mapsto> JInt 3]]"
  have h1: "user_request_data w ''u1'' = Some [''count'' \<mapsto> JInt 3]"
    by (simp add: w_def loaded_def)
  have h2: "[''count'' \<mapsto> JInt 3] ''count'' = Some (JInt 3)"
    by simp
  have "isl (check_and_reset_user_count 5 ''u1'' w) = False"
    by (simp add: w_def loaded_def check_and_reset_user_count_def ensure_keys_def
        getitem_def fromisoformat_def Let_def)
  then have h3: "check_and_reset_user_count 5 ''u1'' w =
      Inr (world_after (check_and_reset_user_count 5 ''u1'' w))"
    by (cases "check_and_reset_user_count 5 ''u1'' w") (simp_all add: world_after_def)
  have i: "author_id (text_message ''u1'' ''!ask hi'') = ''u1''"
    by (simp add: text_message_def)
  from fields_present_after_check [OF h1 h2 h3, of "text_message ''u1'' ''!ask hi''"
      "services 5 6 (Inr ''hello'')"] i
  show ?thesis unfolding w_def by blast
qed

text \<open>
  C10 as stated fails for a loaded record without \<^verbatim>\<open>count\<close>, the one field lines 55 to
  60 give no default: the check returns, the field is still missing, and the text request
  raises \<^verbatim>\<open>KeyError\<close> at line 100.
\<close>

theorem legacy_record_without_count_counterexample:
  "raised (check_and_reset_user_count 5 ''u1'' (loaded [''u1'' \<mapsto> Map.empty])) = None \<and>
   field_of (world_after (check_and_reset_user_count 5 ''u1'' (loaded [''u1'' \<mapsto> Map.empty])))
     ''u1'' ''count'' = None \<and>
   raised (on_message (text_message ''u1'' ''!ask hi'') (services 5 6 (Inr ''hello''))
     (loaded [''u1'' \<mapsto> Map.empty])) = Some KeyError"
  by (simp add: check_and_reset_user_count_def loaded_def ensure_keys_def
      reset_counts_def getitem_def fromisoformat_def timedelta_hours_def RESET_HOURS_def
      save_user_request_data_def set_user_def world_after_def field_of_def Let_def raised_def
      on_message_def text_message_def services_def startswith_def ask_branch_def)

end
